theory Spec2Isabelle
  imports
    Complex_Main
    "HOL-Library.Monad_Syntax"
    "HOL-Library.Char_ord"
    "HOL-Library.List_Lexorder"
begin

section \<open>Python values and exceptions\<close>

text \<open>
  The program is one Python module, \<^verbatim>\<open>extract_repo_info.py\<close>. Response bodies are
  JSON documents as \<^verbatim>\<open>Response.json()\<close> returns them: \<^verbatim>\<open>None\<close> is \<open>JNull\<close>, a
  \<^verbatim>\<open>list\<close> is \<open>JList\<close>, a \<^verbatim>\<open>dict\<close> is \<open>JDict\<close> (an association list with distinct keys, in
  insertion order). Python integers are unbounded, hence \<open>int\<close>. A float is carried as the
  real number it denotes; only its truth value is ever inspected.
\<close>

datatype json =
    JNull
  | JBool bool
  | JInt int
  | JFloat real
  | JStr string
  | JList "json list"
  | JDict "(string \<times> json) list"

text \<open>
  Every \<^verbatim>\<open>raise\<close>, failed \<^verbatim>\<open>assert\<close> and \<^verbatim>\<open>sys.exit\<close> is a value. \<open>Unmodelled\<close> marks an
  input that violates the type annotations of the source (for instance a repository whose
  \<^verbatim>\<open>"id"\<close> is not an integer): the embedding makes no statement about what Python does there.
\<close>

datatype py_error =
    AssertionError
  | KeyError string
  | ValueError
  | TypeError
  | OverflowError
  | JSONDecodeError
  | SystemExit string
  | Unmodelled

text \<open>Truth value testing, as \<^verbatim>\<open>if x:\<close> and \<^verbatim>\<open>x or []\<close> do it.\<close>

fun truthy :: "json \<Rightarrow> bool" where
  "truthy JNull = False"
| "truthy (JBool b) = b"
| "truthy (JInt i) = (i \<noteq> 0)"
| "truthy (JFloat r) = (r \<noteq> 0)"
| "truthy (JStr s) = (s \<noteq> [])"
| "truthy (JList xs) = (xs \<noteq> [])"
| "truthy (JDict kvs) = (kvs \<noteq> [])"

text \<open>\<^verbatim>\<open>isinstance(x, list)\<close>, and the elements of a list.\<close>

fun is_list :: "json \<Rightarrow> bool" where
  "is_list (JList xs) = True"
| "is_list _ = False"

fun items :: "json \<Rightarrow> json list" where
  "items (JList xs) = xs"
| "items _ = []"

subsection \<open>The builtin \<^verbatim>\<open>int(str)\<close>\<close>

text \<open>
  \<^verbatim>\<open>int(s)\<close> in base 10: surrounding whitespace is stripped, then an optional sign, then
  decimal digits, where single underscores may separate digits. Anything else raises
  \<^verbatim>\<open>ValueError\<close> (here \<open>None\<close>). Only ASCII whitespace and ASCII digits are recognised, and the
  limit that recent interpreters put on the number of digits is not part of the model.
\<close>

definition is_space :: "char \<Rightarrow> bool" where
  "is_space c = (of_char c \<in> {9, 10, 11, 12, 13, 28, 29, 30, 31, 32 :: nat})"

definition strip :: "string \<Rightarrow> string" where
  "strip s = rev (dropWhile is_space (rev (dropWhile is_space s)))"

definition digit_val :: "char \<Rightarrow> nat option" where
  "digit_val c =
     (let n = (of_char c :: nat) in if 48 \<le> n \<and> n \<le> 57 then Some (n - 48) else None)"

fun digits_value :: "nat \<Rightarrow> string \<Rightarrow> nat option" where
  "digits_value acc [] = Some acc"
| "digits_value acc (c # cs) =
     (if c = CHR ''_'' then
        (case cs of
           [] \<Rightarrow> None
         | d # ds \<Rightarrow>
             (case digit_val d of
                None \<Rightarrow> None
              | Some v \<Rightarrow> digits_value (10 * acc + v) ds))
      else
        (case digit_val c of
           None \<Rightarrow> None
         | Some v \<Rightarrow> digits_value (10 * acc + v) cs))"

definition unsigned_value :: "string \<Rightarrow> nat option" where
  "unsigned_value s =
     (case s of
        [] \<Rightarrow> None
      | c # cs \<Rightarrow> (case digit_val c of None \<Rightarrow> None | Some v \<Rightarrow> digits_value v cs))"

definition py_int :: "string \<Rightarrow> int option" where
  "py_int s =
     (case strip s of
        [] \<Rightarrow> None
      | c # cs \<Rightarrow>
          if c = CHR ''-'' then map_option (\<lambda>n. - int n) (unsigned_value cs)
          else if c = CHR ''+'' then map_option int (unsigned_value cs)
          else map_option int (unsigned_value (c # cs)))"

section \<open>The HTTP collaborator, the clock and the world\<close>

text \<open>
  What the program reads of a \<^verbatim>\<open>requests.Response\<close>: the status code, the headers (a
  case-insensitive dictionary, keyed here by the lower-case name), the parsed \<^verbatim>\<open>Link\<close>
  header (\<^verbatim>\<open>links[rel]["url"]\<close>), and the body as \<^verbatim>\<open>json()\<close> decodes it, \<open>None\<close> when
  it is not JSON and \<^verbatim>\<open>json()\<close> raises.
\<close>

record response =
  status_code :: int
  headers :: "string \<rightharpoonup> string"
  links :: "string \<rightharpoonup> string"
  body :: "json option"

type_synonym request_headers = "(string \<times> string) list option"

text \<open>
  The environment is everything the program does not control. \<open>server e n url h\<close> is the
  response to the \<open>n\<close>-th GET of the run (counting from 0) when it asks for \<open>url\<close> with
  request headers \<open>h\<close>; every GET is assumed to yield a response. \<open>clock e i\<close> is what the
  \<open>i\<close>-th evaluation of \<^verbatim>\<open>int(time.time())\<close> returns. \<open>localtime_ok\<close> and \<open>sleep_ok\<close> say
  which timestamps \<^verbatim>\<open>time.localtime\<close> and which lengths \<^verbatim>\<open>time.sleep\<close> can represent on
  the platform (both raise \<^verbatim>\<open>OverflowError\<close> otherwise).
\<close>

record env =
  server :: "nat \<Rightarrow> string \<Rightarrow> request_headers \<Rightarrow> response"
  clock :: "nat \<Rightarrow> int"
  localtime_ok :: "int \<Rightarrow> bool"
  sleep_ok :: "int \<Rightarrow> bool"

text \<open>
  The state the network layer changes: how many requests were sent, how often the clock
  was read, the sleeps taken, and the records written by \<^verbatim>\<open>logging.error\<close>.
\<close>

record world =
  requests_made :: nat
  clock_reads :: nat
  slept :: "int list"
  errors_logged :: "(string \<times> int set) list"

type_synonym 'a outcome = "(py_error + 'a) \<times> world"

definition requests_get :: "env \<Rightarrow> string \<Rightarrow> request_headers \<Rightarrow> world \<Rightarrow> response \<times> world" where
  "requests_get e url request_headers w =
     (server e (requests_made w) url request_headers,
      w\<lparr>requests_made := Suc (requests_made w)\<rparr>)"

definition time_now :: "env \<Rightarrow> world \<Rightarrow> int \<times> world" where
  "time_now e w = (clock e (clock_reads w), w\<lparr>clock_reads := Suc (clock_reads w)\<rparr>)"

text \<open>\<^verbatim>\<open>time.sleep(d)\<close> raises \<^verbatim>\<open>ValueError\<close> on a negative length.\<close>

definition time_sleep :: "env \<Rightarrow> int \<Rightarrow> world \<Rightarrow> py_error + world" where
  "time_sleep e d w =
     (if \<not> sleep_ok e d then Inl OverflowError
      else if d < 0 then Inl ValueError
      else Inr (w\<lparr>slept := slept w @ [d]\<rparr>))"

definition log_error :: "string \<Rightarrow> int set \<Rightarrow> world \<Rightarrow> world" where
  "log_error url codes w = w\<lparr>errors_logged := errors_logged w @ [(url, codes)]\<rparr>"

section \<open>Constants of the module\<close>


definition HEADER_RATELIMIT_LIMIT :: string where
  "HEADER_RATELIMIT_LIMIT = ''x-ratelimit-limit''"

definition HEADER_RATELIMIT_REMAINING :: string where
  "HEADER_RATELIMIT_REMAINING = ''x-ratelimit-remaining''"

definition HEADER_RATELIMIT_RESET :: string where
  "HEADER_RATELIMIT_RESET = ''x-ratelimit-reset''"

definition MAX_NB_RETRIES :: nat where
  "MAX_NB_RETRIES = 20"

definition RETRY_SLEEP_DEFAULT :: int where
  "RETRY_SLEEP_DEFAULT = 5"

definition MIN_RATE_LIMIT_REMAINING :: int where
  "MIN_RATE_LIMIT_REMAINING = 10"

section \<open>Retry/backoff policy\<close>

text \<open>\<^verbatim>\<open>int(failed_response.headers[name])\<close>: \<^verbatim>\<open>KeyError\<close> or \<^verbatim>\<open>ValueError\<close>.\<close>

definition header_int :: "response \<Rightarrow> string \<Rightarrow> py_error + int" where
  "header_int r name =
     (case headers r name of
        None \<Rightarrow> Inl (KeyError name)
      | Some v \<Rightarrow> (case py_int v of None \<Rightarrow> Inl ValueError | Some i \<Rightarrow> Inr i))"

text \<open>
  \<^verbatim>\<open>_sleep_duration\<close>. The three headers are read and parsed first, in the order of the
  source, then the clock. Logging is omitted, except that formatting the reset date calls
  \<^verbatim>\<open>localtime\<close>, which can raise.
\<close>

definition sleep_duration :: "env \<Rightarrow> response \<Rightarrow> world \<Rightarrow> int outcome" where
  "sleep_duration e failed_response w =
     (case header_int failed_response HEADER_RATELIMIT_LIMIT of
        Inl err \<Rightarrow> (Inl err, w)
      | Inr rate_limit_max \<Rightarrow>
     (case header_int failed_response HEADER_RATELIMIT_REMAINING of
        Inl err \<Rightarrow> (Inl err, w)
      | Inr rate_limit_remaining \<Rightarrow>
     (case header_int failed_response HEADER_RATELIMIT_RESET of
        Inl err \<Rightarrow> (Inl err, w)
      | Inr rate_limit_reset_date \<Rightarrow>
          (let (now, w') = time_now e w in
           if rate_limit_remaining < MIN_RATE_LIMIT_REMAINING then
             (let sleep_time = rate_limit_reset_date - now in
              if \<not> localtime_ok e rate_limit_reset_date then (Inl OverflowError, w')
              else (Inr sleep_time, w'))
           else (Inr RETRY_SLEEP_DEFAULT, w')))))"

section \<open>Paginated fetcher\<close>

text \<open>
  \<^verbatim>\<open>_process_successful_result\<close> and \<^verbatim>\<open>run_request\<close> call each other, and nothing bounds
  the number of pages a server may chain, so the pair need not return. The body of
  \<^verbatim>\<open>_process_successful_result\<close> is written first, over the call it makes to
  \<^verbatim>\<open>run_request\<close>; the retry loop is then a partial function in the option monad, where
  \<open>None\<close> stands for a run that never returns. Assertions are enabled (the interpreter
  runs without \<^verbatim>\<open>-O\<close>), and the depth of the Python call stack is not limited.
\<close>

definition process_successful_result_with ::
  "(string \<Rightarrow> world \<Rightarrow> json outcome option) \<Rightarrow> response \<Rightarrow> bool \<Rightarrow> world \<Rightarrow> json outcome option"
where
  "process_successful_result_with recurse successful_response is_paginated w =
     (if status_code successful_response \<noteq> 200 then Some (Inl AssertionError, w)
      else
        (case body successful_response of
           None \<Rightarrow> Some (Inl JSONDecodeError, w)
         | Some json_results \<Rightarrow>
             if is_paginated \<and> ''next'' \<in> dom (links successful_response) then
               (if \<not> is_list json_results then Some (Inl AssertionError, w)
                else
                  do {
                    (additional_results, w') \<leftarrow>
                       recurse (the (links successful_response ''next'')) w;
                    (case additional_results of
                       Inl err \<Rightarrow> Some (Inl err, w')
                     | Inr additional \<Rightarrow>
                         if truthy additional then
                           (if \<not> is_list additional then Some (Inl AssertionError, w')
                            else Some (Inr (JList (items json_results @ items additional)), w'))
                         else Some (Inr json_results, w'))
                  })
             else Some (Inr json_results, w)))"

lemma process_successful_result_with_mono [partial_function_mono]:
  assumes "\<And>u w. mono_option (\<lambda>f. F f u w)"
  shows "mono_option (\<lambda>f. process_successful_result_with (F f) r p w)"
proof (cases "body r")
  case None
  then show ?thesis
    unfolding process_successful_result_with_def
    by (auto intro!: partial_function_mono)
next
  case (Some j)
  then show ?thesis
    unfolding process_successful_result_with_def
    by (auto intro!: partial_function_mono assms)
qed

text \<open>
  The \<^verbatim>\<open>while\<close> loop of \<^verbatim>\<open>run_request\<close>, with its two local variables as arguments.
\<close>

partial_function (option) request_loop ::
  "env \<Rightarrow> string \<Rightarrow> request_headers \<Rightarrow> bool \<Rightarrow> nat \<Rightarrow> int set \<Rightarrow> world \<Rightarrow> json outcome option"
where
  "request_loop e url request_headers is_paginated failure_count failure_status_codes w =
     (if failure_count < MAX_NB_RETRIES then
        (let (raw_results, w1) = requests_get e url request_headers w in
         if status_code raw_results = 200 then
           process_successful_result_with
             (\<lambda>next_url. request_loop e next_url request_headers is_paginated 0 {})
             raw_results is_paginated w1
         else if status_code raw_results = 204 then Some (Inr JNull, w1)
         else
           (case sleep_duration e raw_results w1 of
              (Inl err, w2) \<Rightarrow> Some (Inl err, w2)
            | (Inr d, w2) \<Rightarrow>
                (case time_sleep e d w2 of
                   Inl err \<Rightarrow> Some (Inl err, w2)
                 | Inr w3 \<Rightarrow>
                     request_loop e url request_headers is_paginated (Suc failure_count)
                       (insert (status_code raw_results) failure_status_codes) w3)))
      else Some (Inr JNull, log_error url failure_status_codes w))"

declare request_loop.simps [code]

definition run_request ::
  "env \<Rightarrow> string \<Rightarrow> request_headers \<Rightarrow> bool \<Rightarrow> world \<Rightarrow> json outcome option" where
  "run_request e url request_headers is_paginated w =
     request_loop e url request_headers is_paginated 0 {} w"

definition process_successful_result ::
  "env \<Rightarrow> response \<Rightarrow> request_headers \<Rightarrow> bool \<Rightarrow> world \<Rightarrow> json outcome option" where
  "process_successful_result e successful_response request_headers is_paginated w =
     process_successful_result_with
       (\<lambda>next_url. run_request e next_url request_headers is_paginated)
       successful_response is_paginated w"






section \<open>Dynamic typing at the JSON boundary\<close>










section \<open>Team membership\<close>





section \<open>Summary rows\<close>




section \<open>Incremental output ledger\<close>

text \<open>
  The output file is seen as the \<^verbatim>\<open>csv\<close> module sees it: a sequence of records, each a
  sequence of text cells (the quoting of the \<^verbatim>\<open>excel\<close> dialect is the library's). The
  file system maps a path to the records of the file there. Only the two conditions that
  the program handles are modelled for \<^verbatim>\<open>open\<close>: the file exists, or it does not.
\<close>

type_synonym csv_file = "string list list"

type_synonym file_system = "string \<rightharpoonup> csv_file"

definition field_names :: "string list" where
  "field_names =
     [''repo_name'', ''repo_id'', ''repo_size'', ''last_3_weeks_commit_count'',
      ''last_52_weeks_commit_count'', ''contributor_count'', ''contributor_handles'',
      ''team_names'']"

text \<open>\<^verbatim>\<open>str(n)\<close> for an integer.\<close>

fun string_of_nat :: "nat \<Rightarrow> string" where
  "string_of_nat n =
     (if n < 10 then [char_of (48 + n)]
      else string_of_nat (n div 10) @ [char_of (48 + n mod 10)])"

declare string_of_nat.simps [simp del]

definition py_str :: "int \<Rightarrow> string" where
  "py_str i = (if i < 0 then CHR ''-'' # string_of_nat (nat (- i)) else string_of_nat (nat i))"


text \<open>\<^verbatim>\<open>start_repo_csv\<close>: mode \<^verbatim>\<open>"x"\<close> creates the file or raises \<^verbatim>\<open>FileExistsError\<close>.\<close>

definition start_repo_csv :: "file_system \<Rightarrow> string \<Rightarrow> bool \<times> file_system" where
  "start_repo_csv fs filepath =
     (case fs filepath of
        Some existing \<Rightarrow> (False, fs)
      | None \<Rightarrow> (True, fs(filepath \<mapsto> [field_names])))"





section \<open>The script\<close>

record args =
  owner :: string
  token :: "string option"
  filepath :: string
  append_only :: bool








section \<open>Vocabulary of the properties\<close>









section \<open>Example responses, servers and files\<close>

text \<open>
  Concrete inputs on which the properties are instantiated. \<open>env_of srv\<close> is a platform
  whose clock always reads 200 and where every timestamp and sleep length is representable.
\<close>

definition world0 :: world where
  "world0 = \<lparr>requests_made = 0, clock_reads = 0, slept = [], errors_logged = []\<rparr>"

definition response_of ::
  "int \<Rightarrow> (string \<times> string) list \<Rightarrow> (string \<times> string) list \<Rightarrow> json option \<Rightarrow> response" where
  "response_of code hs ls b = \<lparr>status_code = code, headers = map_of hs, links = map_of ls, body = b\<rparr>"

definition env_of :: "(nat \<Rightarrow> string \<Rightarrow> response) \<Rightarrow> env" where
  "env_of srv =
     \<lparr>server = (\<lambda>n url hdrs. srv n url), clock = (\<lambda>i. 200),
      localtime_ok = (\<lambda>t. True), sleep_ok = (\<lambda>d. True)\<rparr>"








definition object_page :: response where
  "object_page = response_of 200 [] [] (Some (JDict [(''message'', JStr ''moved'')]))"

definition object_page_with_next :: response where
  "object_page_with_next =
     response_of 200 [] [(''next'', ''page2'')] (Some (JDict [(''message'', JStr ''moved'')]))"


definition always :: "response \<Rightarrow> env" where
  "always r = env_of (\<lambda>n url. r)"



definition ledger_path :: string where
  "ledger_path = ''repos.csv''"

definition recorded :: "string \<Rightarrow> int \<Rightarrow> string list" where
  "recorded name ident = [name, py_str ident, ''10'', ''0'', ''0'', ''0'', [], []]"

definition ledger_123 :: file_system where
  "ledger_123 =
     [ledger_path \<mapsto>
        [field_names, recorded ''alpha'' 1, recorded ''beta'' 2, recorded ''gamma'' 3]]"





section \<open>The retry loop\<close>







lemma request_loop_success:
  assumes "failure_count < MAX_NB_RETRIES"
    and "status_code (server e (requests_made w) url rh) = 200"
  shows "request_loop e url rh p failure_count codes w =
           process_successful_result e (server e (requests_made w) url rh) rh p
             (w\<lparr>requests_made := Suc (requests_made w)\<rparr>)"
proof -
  have "(\<lambda>next_url. request_loop e next_url rh p 0 {}) = (\<lambda>next_url. run_request e next_url rh p)"
    by (intro ext) (simp add: run_request_def)
  then show ?thesis
    by (subst request_loop.simps)
       (simp add: assms requests_get_def process_successful_result_def)
qed



lemma run_request_first_page:
  assumes "status_code (server e (requests_made w) url rh) = 200"
  shows "run_request e url rh p w =
           process_successful_result e (server e (requests_made w) url rh) rh p
             (w\<lparr>requests_made := Suc (requests_made w)\<rparr>)"
  unfolding run_request_def
  by (rule request_loop_success) (simp_all add: assms MAX_NB_RETRIES_def)

section \<open>Pagination\<close>


lemma process_page_final:
  assumes "status_code r = 200" and "body r = Some j" and "\<not> (p \<and> ''next'' \<in> dom (links r))"
  shows "process_successful_result e r rh p w = Some (Inr j, w)"
  using assms
  by (auto simp: process_successful_result_def process_successful_result_with_def)




section \<open>Facts about the examples\<close>







section \<open>Properties of the paginated fetcher\<close>












text \<open>
  A 200 response to a paginated request whose body is an object and which has no
  \<^verbatim>\<open>next\<close> link is returned as it is.
\<close>

theorem non_list_body_counterexample:
  "run_request (always object_page) ''target'' None True world0 =
     Some (Inr (JDict [(''message'', JStr ''moved'')]), world0\<lparr>requests_made := 1\<rparr>)"
  by (simp add: run_request_first_page process_page_final always_def env_of_def object_page_def
        response_of_def world0_def)

text \<open>
  Claim C9, amended. For a 200 response to a request made with the paginated flag set
  whose body is not a list: if the response carries a \<^verbatim>\<open>next\<close> link, the fetcher fails
  with \<^verbatim>\<open>AssertionError\<close> before any further request; if it carries none, the body is
  returned unchanged.
\<close>

theorem non_list_body_asserted_only_before_next:
  assumes "status_code (server e (requests_made w) url rh) = 200"
    and "body (server e (requests_made w) url rh) = Some j"
    and "\<not> is_list j"
  shows "(''next'' \<in> dom (links (server e (requests_made w) url rh)) \<longrightarrow>
            run_request e url rh True w =
              Some (Inl AssertionError, w\<lparr>requests_made := Suc (requests_made w)\<rparr>)) \<and>
         (''next'' \<notin> dom (links (server e (requests_made w) url rh)) \<longrightarrow>
            run_request e url rh True w =
              Some (Inr j, w\<lparr>requests_made := Suc (requests_made w)\<rparr>))"
  using assms
  by (auto simp: run_request_first_page process_page_final process_successful_result_def
        process_successful_result_with_def)

theorem non_list_body_asserted_only_before_next_witness:
  "run_request (always object_page_with_next) ''target'' None True world0 =
     Some (Inl AssertionError, world0\<lparr>requests_made := 1\<rparr>) \<and>
   run_request (always object_page) ''target'' None True world0 =
     Some (Inr (JDict [(''message'', JStr ''moved'')]), world0\<lparr>requests_made := 1\<rparr>)"
  using non_list_body_asserted_only_before_next
          [of "always object_page_with_next" world0 "''target''" None
              "JDict [(''message'', JStr ''moved'')]"]
        non_list_body_asserted_only_before_next
          [of "always object_page" world0 "''target''" None
              "JDict [(''message'', JStr ''moved'')]"]
  by (simp add: always_def env_of_def object_page_def object_page_with_next_def response_of_def
        world0_def)

section \<open>Properties of the retry/backoff policy\<close>




section \<open>Properties of the output ledger\<close>

text \<open>
  Claim C6. If a file exists at the path, \<^verbatim>\<open>start_repo_csv\<close> returns \<^verbatim>\<open>False\<close> and leaves
  the file system as it is. On a fresh path the first call returns \<^verbatim>\<open>True\<close> and creates
  the file with the header row; a second call returns \<^verbatim>\<open>False\<close> and leaves the file
  written by the first call untouched.
\<close>

theorem start_repo_csv_never_overwrites:
  "(fs path = Some existing \<longrightarrow> start_repo_csv fs path = (False, fs)) \<and>
   (fs path = None \<longrightarrow>
      start_repo_csv fs path = (True, fs(path \<mapsto> [field_names])) \<and>
      start_repo_csv (snd (start_repo_csv fs path)) path = (False, fs(path \<mapsto> [field_names])))"
  by (simp add: start_repo_csv_def)

theorem start_repo_csv_never_overwrites_witness:
  "start_repo_csv ledger_123 ledger_path = (False, ledger_123) \<and>
   start_repo_csv Map.empty ledger_path = (True, [ledger_path \<mapsto> [field_names]]) \<and>
   start_repo_csv (snd (start_repo_csv Map.empty ledger_path)) ledger_path =
     (False, [ledger_path \<mapsto> [field_names]])"
proof (intro conjI)
  from start_repo_csv_never_overwrites
         [of ledger_123 ledger_path
             "[field_names, recorded ''alpha'' 1, recorded ''beta'' 2, recorded ''gamma'' 3]"]
  show "start_repo_csv ledger_123 ledger_path = (False, ledger_123)"
    by (simp add: ledger_123_def)
next
  from start_repo_csv_never_overwrites [of Map.empty ledger_path]
  show "start_repo_csv Map.empty ledger_path = (True, [ledger_path \<mapsto> [field_names]])"
    by simp
next
  from start_repo_csv_never_overwrites [of Map.empty ledger_path]
  show "start_repo_csv (snd (start_repo_csv Map.empty ledger_path)) ledger_path =
          (False, [ledger_path \<mapsto> [field_names]])"
    by blast
qed

















section \<open>Properties of the summary row\<close>








section \<open>Append-only continuation\<close>









end
